theory Spec2Isabelle
  imports Main
begin

section \<open>The host editor, as far as \<^verbatim>\<open>src/tasks.ts\<close> talks to it\<close>

text \<open>
  The module is glue over the editor's extension API. Everything it reads from or writes to
  the editor is kept in one record, passed through every function and returned updated:
  the configuration collection, the answer the editor gives to a configuration write, the
  project root, the notifications displayed, the console, and the task providers that are
  registered. The module's own variable \<^verbatim>\<open>taskProvider\<close> is a field of the same record.
\<close>

text \<open>
  Configuration values are JSON. Numbers are kept as integers: the module only ever tests a
  value for truthiness, where a number counts as false exactly when it is zero.
\<close>

datatype json =
    JNull
  | JBool bool
  | JNum int
  | JStr string
  | JArr "json list"
  | JObj "(string \<times> json) list"

text \<open>What a rejected configuration write carries.\<close>

datatype host_error = HostError string

text \<open>
  A line of the console: \<^verbatim>\<open>console.log\<close> of a text, \<^verbatim>\<open>console.error\<close> of a text, or
  \<^verbatim>\<open>console.error\<close> of a caught error value.
\<close>

datatype console_line = Log string | Error string | ErrorValue host_error

text \<open>
  An \<^verbatim>\<open>async\<close> function returns a promise, which is rejected with an error (\<open>Inl\<close>) or
  resolved with a value (\<open>Inr\<close>). A value of type \<^verbatim>\<open>string | undefined\<close> is a
  \<open>string option\<close>, \<open>None\<close> being \<^verbatim>\<open>undefined\<close>.
\<close>

type_synonym 'a promise = "host_error + 'a"

record world =
  settings :: "string \<rightharpoonup> json"
  updateError :: "host_error option"
  rootPath :: "string option"
  shown :: "string list"
  console :: "console_line list"
  providers :: "(nat \<times> string) list"
  nextHandle :: nat
  taskProvider :: "nat option"

text \<open>
  \<open>settings\<close> is the collection \<^verbatim>\<open>workspace.getConfiguration()\<close> gives access to, a key
  that is absent reading as \<^verbatim>\<open>undefined\<close>. \<open>updateError\<close> is the editor's answer to
  \<^verbatim>\<open>config.update\<close>: \<open>None\<close> when it accepts the write, \<open>Some e\<close> when it rejects it
  with \<open>e\<close>. \<open>rootPath\<close> is \<^verbatim>\<open>workspace.rootPath\<close>. \<open>shown\<close> lists the texts passed to
  \<^verbatim>\<open>window.showInformationMessage\<close>, oldest first, and \<open>console\<close> the console lines.
  \<open>providers\<close> lists the task-provider registrations the editor holds, each with the handle
  of its \<^verbatim>\<open>Disposable\<close> and its task type; \<open>nextHandle\<close> is the next handle to give out.
  \<open>taskProvider\<close> is the module-level variable of that name, \<open>None\<close> being \<^verbatim>\<open>null\<close>.
\<close>

subsection \<open>The editor's operations\<close>

text \<open>
  Of the editor's calls only the configuration write can fail; the console and the
  notifications always go through.
\<close>

text \<open>JavaScript's \<^verbatim>\<open>!!v\<close>, where \<open>None\<close> is \<^verbatim>\<open>undefined\<close>.\<close>

fun truthy :: "json option \<Rightarrow> bool" where
  "truthy None = False"
| "truthy (Some JNull) = False"
| "truthy (Some (JBool b)) = b"
| "truthy (Some (JNum n)) = (n \<noteq> 0)"
| "truthy (Some (JStr s)) = (s \<noteq> [])"
| "truthy (Some (JArr _)) = True"
| "truthy (Some (JObj _)) = True"

text \<open>
  \<^verbatim>\<open>config.update(key, value, isGlobal)\<close>: the editor either rejects the write, storing
  nothing, or stores the value under the key. The model has the one collection the module
  reads, so the target flag selects nothing in it.
\<close>

definition config_update :: "string \<Rightarrow> json \<Rightarrow> bool \<Rightarrow> world \<Rightarrow> unit promise \<times> world" where
  "config_update key v isGlobal w =
     (case updateError w of
        Some e \<Rightarrow> (Inl e, w)
      | None \<Rightarrow> (Inr (), w\<lparr>settings := (settings w)(key \<mapsto> v)\<rparr>))"

text \<open>
  \<^verbatim>\<open>window.showInformationMessage(text)\<close>, called with a text and no items, as the module
  calls it everywhere: the editor displays the text, and its promise resolves to the item
  the user selects or to \<^verbatim>\<open>undefined\<close>; with no item to select, to \<^verbatim>\<open>undefined\<close>.
\<close>

definition showInformationMessage :: "string \<Rightarrow> world \<Rightarrow> string option \<times> world" where
  "showInformationMessage msg w = (None, w\<lparr>shown := shown w @ [msg]\<rparr>)"

definition console_log :: "string \<Rightarrow> world \<Rightarrow> world" where
  "console_log msg w = w\<lparr>console := console w @ [Log msg]\<rparr>"

definition console_error :: "string \<Rightarrow> world \<Rightarrow> world" where
  "console_error msg w = w\<lparr>console := console w @ [Error msg]\<rparr>"

definition console_error_value :: "host_error \<Rightarrow> world \<Rightarrow> world" where
  "console_error_value e w = w\<lparr>console := console w @ [ErrorValue e]\<rparr>"

section \<open>The configuration writer\<close>

text \<open>\<^verbatim>\<open>createDefaultTaskConfig\<close>: the object literal, keys in the order written.\<close>

definition createDefaultTaskConfig :: json where
  "createDefaultTaskConfig =
     JObj [
       (''version'', JStr ''2.0.0''),
       (''presentation'', JObj [(''reveal'', JStr ''always''), (''panel'', JStr ''new'')]),
       (''tasks'', JArr [
          JObj [
            (''taskName'', JStr ''cargo build''),
            (''type'', JStr ''shell''),
            (''command'', JStr ''cargo''),
            (''args'', JArr [JStr ''build'']),
            (''group'', JStr ''build''),
            (''problemMatcher'', JStr ''$rustc'')],
          JObj [
            (''taskName'', JStr ''cargo run''),
            (''type'', JStr ''shell''),
            (''command'', JStr ''cargo''),
            (''args'', JArr [JStr ''run'']),
            (''problemMatcher'', JStr ''$rustc'')],
          JObj [
            (''taskName'', JStr ''cargo test''),
            (''type'', JStr ''shell''),
            (''command'', JStr ''cargo''),
            (''args'', JArr [JStr ''test'']),
            (''group'', JStr ''test''),
            (''problemMatcher'', JStr ''$rustc'')],
          JObj [
            (''taskName'', JStr ''cargo clean''),
            (''type'', JStr ''shell''),
            (''command'', JStr ''cargo''),
            (''args'', JArr [JStr ''clean''])]])]"

text \<open>
  \<^verbatim>\<open>getConfiguration\<close>: the collection, and whether its \<^verbatim>\<open>tasks\<close> entry is truthy.
\<close>

definition getConfiguration :: "world \<Rightarrow> (string \<rightharpoonup> json) \<times> bool" where
  "getConfiguration w =
     (let config = settings w;
          hasOtherTasks = truthy (config ''tasks'')
      in (config, hasOtherTasks))"

text \<open>
  \<^verbatim>\<open>addBuildCommands\<close>: the \<^verbatim>\<open>try\<close> block is the write, awaited; the \<^verbatim>\<open>catch\<close> block
  receives the error of a rejected write. \<open>config\<close> is the handle on the editor's
  collection, which the write goes through to. Each \<^verbatim>\<open>return\<close> hands on what the
  notification resolves to.
\<close>

definition addBuildCommands :: "(string \<rightharpoonup> json) \<Rightarrow> world \<Rightarrow> string option promise \<times> world" where
  "addBuildCommands config w =
     (let tasks = createDefaultTaskConfig in
      case config_update ''tasks'' tasks False w of
        (Inl e, w1) \<Rightarrow>
          (let w2 = console_error_value e w1;
               (r, w3) = showInformationMessage ''Could not update tasks.json. Any tasks are not added.'' w2
           in (Inr r, w3))
      | (Inr _, w1) \<Rightarrow>
          (let (r, w2) = showInformationMessage ''Added default build tasks for Rust'' w1
           in (Inr r, w2)))"

definition addBuildCommandsOnOpeningProject :: "world \<Rightarrow> string option promise \<times> world" where
  "addBuildCommandsOnOpeningProject w =
     (let (config, hasOtherTasks) = getConfiguration w in
      if hasOtherTasks then (Inr None, w)
      else addBuildCommands config w)"

definition addBuildCommandsByUser :: "world \<Rightarrow> string option promise \<times> world" where
  "addBuildCommandsByUser w =
     (let (config, hasOtherTasks) = getConfiguration w in
      if hasOtherTasks then
        (let (r, w1) = showInformationMessage ''tasks.json has other tasks. Any tasks are not added.'' w
         in (Inr r, w1))
      else addBuildCommands config w)"

section \<open>The task provider\<close>

text \<open>The editor's enumerations that the module names.\<close>

datatype TaskGroup = Clean | Build | Rebuild | Test

datatype TaskRevealKind = Always | Silent | Never

datatype TaskPanelKind = Shared | Dedicated | New

record TaskPresentationOptions =
  reveal :: TaskRevealKind
  panel :: TaskPanelKind

text \<open>\<^verbatim>\<open>CargoTaskDefinition\<close>; the field \<open>type'\<close> is the source's \<^verbatim>\<open>type\<close>.\<close>

record CargoTaskDefinition =
  taskName :: string
  type' :: string
  command :: string
  args :: "string list"

text \<open>
  \<^verbatim>\<open>TaskConfigItem\<close>: the fields \<^verbatim>\<open>definition\<close>, \<^verbatim>\<open>problemMatcher\<close>, \<^verbatim>\<open>group\<close> and
  \<^verbatim>\<open>presentationOptions\<close>, the last three optional (\<open>None\<close> when the literal leaves the
  field out).
\<close>

record TaskConfigItem =
  item_definition :: CargoTaskDefinition
  item_problemMatcher :: "string list option"
  item_group :: "TaskGroup option"
  item_presentationOptions :: "TaskPresentationOptions option"

text \<open>\<^verbatim>\<open>ShellExecution(commandLine, {cwd})\<close>.\<close>

record ShellExecutionOptions =
  cwd :: "string option"

record ShellExecution =
  commandLine :: string
  options :: ShellExecutionOptions

text \<open>
  The editor's \<^verbatim>\<open>Task\<close>: what the constructor is given (definition, name, source,
  execution, problem matchers), and the two properties \<^verbatim>\<open>createTask\<close> assigns, unset
  (\<open>None\<close>) until it does.
\<close>

record Task =
  task_definition :: CargoTaskDefinition
  task_name :: string
  task_source :: string
  task_execution :: ShellExecution
  task_problemMatchers :: "string list option"
  task_group :: "TaskGroup option"
  task_presentationOptions :: "TaskPresentationOptions option"

definition new_Task ::
  "CargoTaskDefinition \<Rightarrow> string \<Rightarrow> string \<Rightarrow> ShellExecution \<Rightarrow> string list option \<Rightarrow> Task" where
  "new_Task d n src exec pm =
     \<lparr>task_definition = d, task_name = n, task_source = src, task_execution = exec,
      task_problemMatchers = pm, task_group = None, task_presentationOptions = None\<rparr>"

text \<open>\<^verbatim>\<open>Array.prototype.join\<close> on an array of strings.\<close>

fun join :: "string list \<Rightarrow> string \<Rightarrow> string" where
  "join [] sep = []"
| "join [x] sep = x"
| "join (x # y # ys) sep = x @ sep @ join (y # ys) sep"

text \<open>\<^verbatim>\<open>createTask\<close>.\<close>

definition createTask :: "string \<Rightarrow> TaskConfigItem \<Rightarrow> Task" where
  "createTask root item =
     (let definition = item_definition item;
          TASK_SOURCE = ''Rust'';
          execCmd = command definition @ '' '' @ join (args definition) '' '';
          execOption = \<lparr>cwd = Some root\<rparr>;
          exec = \<lparr>commandLine = execCmd, options = execOption\<rparr>;
          t = new_Task definition (taskName definition) TASK_SOURCE exec (item_problemMatcher item);
          t1 = (case item_group item of None \<Rightarrow> t | Some g \<Rightarrow> t\<lparr>task_group := Some g\<rparr>);
          t2 = (case item_presentationOptions item of
                  None \<Rightarrow> t1
                | Some p \<Rightarrow> t1\<lparr>task_presentationOptions := Some p\<rparr>)
      in t2)"

text \<open>The table \<^verbatim>\<open>taskList\<close> of \<^verbatim>\<open>getCargoTasks\<close>.\<close>

definition taskList :: "TaskConfigItem list" where
  "taskList =
     (let problemMatcher = [''$rustc''];
          presentationOptions = \<lparr>reveal = Always, panel = New\<rparr>
      in [
        \<lparr>item_definition =
           \<lparr>taskName = ''cargo build'', type' = ''shell'', command = ''cargo'', args = [''build'']\<rparr>,
         item_problemMatcher = Some problemMatcher,
         item_group = Some Build,
         item_presentationOptions = Some presentationOptions\<rparr>,
        \<lparr>item_definition =
           \<lparr>taskName = ''cargo run'', type' = ''shell'', command = ''cargo'', args = [''run'']\<rparr>,
         item_problemMatcher = Some problemMatcher,
         item_group = Some Build,
         item_presentationOptions = Some presentationOptions\<rparr>,
        \<lparr>item_definition =
           \<lparr>taskName = ''cargo test'', type' = ''shell'', command = ''cargo'', args = [''test'']\<rparr>,
         item_problemMatcher = Some problemMatcher,
         item_group = Some Test,
         item_presentationOptions = Some presentationOptions\<rparr>,
        \<lparr>item_definition =
           \<lparr>taskName = ''cargo clean'', type' = ''shell'', command = ''cargo'', args = [''clean'']\<rparr>,
         item_problemMatcher = None,
         item_group = Some Clean,
         item_presentationOptions = Some presentationOptions\<rparr>])"

text \<open>\<^verbatim>\<open>getCargoTasks\<close>: the tasks, and the world with what was logged.\<close>

definition getCargoTasks :: "world \<Rightarrow> Task list \<times> world" where
  "getCargoTasks w =
     (case rootPath w of
        None \<Rightarrow> ([], console_error ''`workspace.rootPath` is `undefined`'' w)
      | Some root \<Rightarrow> (map (\<lambda>def. createTask root def) taskList, w))"

text \<open>The two methods of the provider object that \<^verbatim>\<open>activateTaskProvider\<close> registers.\<close>

definition provideTasks :: "world \<Rightarrow> Task list \<times> world" where
  "provideTasks w = getCargoTasks w"

definition resolveTask :: "Task \<Rightarrow> Task option" where
  "resolveTask task = None"

text \<open>
  \<^verbatim>\<open>workspace.registerTaskProvider(type, provider)\<close>: the editor records the registration
  and hands out a \<^verbatim>\<open>Disposable\<close>, here its handle. The provider registered is always the
  object above, so the registration keeps the task type only.
\<close>

definition registerTaskProvider :: "string \<Rightarrow> world \<Rightarrow> nat \<times> world" where
  "registerTaskProvider ty w =
     (nextHandle w,
      w\<lparr>providers := providers w @ [(nextHandle w, ty)], nextHandle := Suc (nextHandle w)\<rparr>)"

text \<open>\<^verbatim>\<open>Disposable.dispose\<close>: the editor drops the registration with that handle, if it holds it.\<close>

definition dispose :: "nat \<Rightarrow> world \<Rightarrow> world" where
  "dispose d w = w\<lparr>providers := filter (\<lambda>r. fst r \<noteq> d) (providers w)\<rparr>"

definition activateTaskProvider :: "world \<Rightarrow> world" where
  "activateTaskProvider w =
     (if taskProvider w \<noteq> None then console_log ''the task provider has been activated'' w
      else
        (let (d, w1) = registerTaskProvider ''rust'' w
         in w1\<lparr>taskProvider := Some d\<rparr>))"

definition deactivateTaskProvider :: "world \<Rightarrow> world" where
  "deactivateTaskProvider w =
     (case taskProvider w of
        None \<Rightarrow> w
      | Some d \<Rightarrow> dispose d w)"

section \<open>The persisted table read as runtime items\<close>

text \<open>
  To compare the two tables, an entry of the persisted \<^verbatim>\<open>tasks\<close> array is read field by
  field as a \<open>TaskConfigItem\<close>: \<^verbatim>\<open>taskName\<close>, \<^verbatim>\<open>type\<close>, \<^verbatim>\<open>command\<close> and \<^verbatim>\<open>args\<close> as
  they are, the problem matcher named by a string as the one-element list of that name, the
  group named by a string as the \<open>TaskGroup\<close> of that name, and a field that is not there as
  \<open>None\<close>. An entry of the persisted table has no presentation options of its own.
\<close>

definition field :: "string \<Rightarrow> json \<Rightarrow> json option" where
  "field k j = (case j of JObj kvs \<Rightarrow> map_of kvs k | _ \<Rightarrow> None)"

fun string_of :: "json option \<Rightarrow> string option" where
  "string_of (Some (JStr s)) = Some s"
| "string_of _ = None"

fun strings_of :: "json option \<Rightarrow> string list option" where
  "strings_of (Some (JArr js)) = those (map (\<lambda>j. string_of (Some j)) js)"
| "strings_of _ = None"

definition group_of :: "string option \<Rightarrow> TaskGroup option" where
  "group_of g =
     (if g = Some ''clean'' then Some Clean
      else if g = Some ''build'' then Some Build
      else if g = Some ''rebuild'' then Some Rebuild
      else if g = Some ''test'' then Some Test
      else None)"

definition persisted_item :: "json \<Rightarrow> TaskConfigItem option" where
  "persisted_item j =
     (case (string_of (field ''taskName'' j), string_of (field ''type'' j),
            string_of (field ''command'' j), strings_of (field ''args'' j)) of
        (Some n, Some t, Some c, Some a) \<Rightarrow>
          Some \<lparr>item_definition = \<lparr>taskName = n, type' = t, command = c, args = a\<rparr>,
                item_problemMatcher = map_option (\<lambda>m. [m]) (string_of (field ''problemMatcher'' j)),
                item_group = group_of (string_of (field ''group'' j)),
                item_presentationOptions = None\<rparr>
      | _ \<Rightarrow> None)"

definition persisted_items :: "TaskConfigItem list option" where
  "persisted_items =
     (case field ''tasks'' createDefaultTaskConfig of
        Some (JArr js) \<Rightarrow> those (map persisted_item js)
      | _ \<Rightarrow> None)"

text \<open>
  The runtime table as the specification derives it from the persisted one: every item gets
  the presentation options reveal \<open>Always\<close>, panel \<open>New\<close>; the clean task gets the group
  \<open>Clean\<close>; nothing else changes.
\<close>

definition spec_runtime_item :: "TaskConfigItem \<Rightarrow> TaskConfigItem" where
  "spec_runtime_item item =
     item\<lparr>item_presentationOptions := Some \<lparr>reveal = Always, panel = New\<rparr>,
          item_group := (if taskName (item_definition item) = ''cargo clean'' then Some Clean
                         else item_group item)\<rparr>"

section \<open>Worlds to run the module in\<close>

text \<open>
  A project at \<^verbatim>\<open>/proj\<close> with an empty configuration, an editor that accepts writes, and
  nothing registered, shown or logged yet.
\<close>

definition fresh_world :: world where
  "fresh_world =
     \<lparr>settings = Map.empty, updateError = None, rootPath = Some ''/proj'', shown = [],
      console = [], providers = [], nextHandle = 0, taskProvider = None\<rparr>"

text \<open>The same with no folder open.\<close>

definition rootless_world :: world where
  "rootless_world = fresh_world\<lparr>rootPath := None\<rparr>"

text \<open>The same with \<^verbatim>\<open>"tasks": null\<close> in the configuration.\<close>

definition null_tasks_world :: world where
  "null_tasks_world = fresh_world\<lparr>settings := [''tasks'' \<mapsto> JNull]\<rparr>"

text \<open>The same with a task configuration of the user's own.\<close>

definition own_tasks_world :: world where
  "own_tasks_world =
     fresh_world\<lparr>settings := [''tasks'' \<mapsto> JObj [(''version'', JStr ''0.1.0''), (''command'', JStr ''make'')]]\<rparr>"

text \<open>The same with an editor that rejects configuration writes.\<close>

definition readonly_world :: world where
  "readonly_world = fresh_world\<lparr>updateError := Some (HostError ''EACCES'')\<rparr>"

section \<open>Helper facts\<close>

lemma addBuildCommands_accepted:
  "updateError w = None \<Longrightarrow>
   addBuildCommands config w =
     (Inr None,
      w\<lparr>settings := (settings w)(''tasks'' \<mapsto> createDefaultTaskConfig),
        shown := shown w @ [''Added default build tasks for Rust'']\<rparr>)"
  by (simp add: addBuildCommands_def config_update_def showInformationMessage_def)

lemma addBuildCommands_rejected:
  "updateError w = Some e \<Longrightarrow>
   addBuildCommands config w =
     (Inr None,
      w\<lparr>console := console w @ [ErrorValue e],
        shown := shown w @ [''Could not update tasks.json. Any tasks are not added.'']\<rparr>)"
  by (simp add: addBuildCommands_def config_update_def showInformationMessage_def
      console_error_value_def)

lemma not_truthy_goes_on:
  "\<not> truthy (settings w ''tasks'') \<Longrightarrow>
   addBuildCommandsOnOpeningProject w = addBuildCommands (settings w) w \<and>
   addBuildCommandsByUser w = addBuildCommands (settings w) w"
  by (simp add: addBuildCommandsOnOpeningProject_def addBuildCommandsByUser_def
      getConfiguration_def)

lemma createTask_fields:
  "task_definition (createTask root item) = item_definition item"
  "task_name (createTask root item) = taskName (item_definition item)"
  "task_source (createTask root item) = ''Rust''"
  "commandLine (task_execution (createTask root item)) =
     command (item_definition item) @ '' '' @ join (args (item_definition item)) '' ''"
  "cwd (options (task_execution (createTask root item))) = Some root"
  "task_problemMatchers (createTask root item) = item_problemMatcher item"
  "task_group (createTask root item) = item_group item"
  "task_presentationOptions (createTask root item) = item_presentationOptions item"
  by (simp_all add: createTask_def new_Task_def Let_def split: option.splits)

lemma provideTasks_rooted:
  "rootPath w = Some root \<Longrightarrow> provideTasks w = (map (createTask root) taskList, w)"
  by (simp add: provideTasks_def getCargoTasks_def)

lemma persisted_items_value:
  "persisted_items = Some [
     \<lparr>item_definition =
        \<lparr>taskName = ''cargo build'', type' = ''shell'', command = ''cargo'', args = [''build'']\<rparr>,
      item_problemMatcher = Some [''$rustc''], item_group = Some Build,
      item_presentationOptions = None\<rparr>,
     \<lparr>item_definition =
        \<lparr>taskName = ''cargo run'', type' = ''shell'', command = ''cargo'', args = [''run'']\<rparr>,
      item_problemMatcher = Some [''$rustc''], item_group = None,
      item_presentationOptions = None\<rparr>,
     \<lparr>item_definition =
        \<lparr>taskName = ''cargo test'', type' = ''shell'', command = ''cargo'', args = [''test'']\<rparr>,
      item_problemMatcher = Some [''$rustc''], item_group = Some Test,
      item_presentationOptions = None\<rparr>,
     \<lparr>item_definition =
        \<lparr>taskName = ''cargo clean'', type' = ''shell'', command = ''cargo'', args = [''clean'']\<rparr>,
      item_problemMatcher = None, item_group = None,
      item_presentationOptions = None\<rparr>]"
  by (simp add: persisted_items_def createDefaultTaskConfig_def field_def persisted_item_def
      group_of_def)

lemma taskList_value:
  "taskList = [
     \<lparr>item_definition =
        \<lparr>taskName = ''cargo build'', type' = ''shell'', command = ''cargo'', args = [''build'']\<rparr>,
      item_problemMatcher = Some [''$rustc''], item_group = Some Build,
      item_presentationOptions = Some \<lparr>reveal = Always, panel = New\<rparr>\<rparr>,
     \<lparr>item_definition =
        \<lparr>taskName = ''cargo run'', type' = ''shell'', command = ''cargo'', args = [''run'']\<rparr>,
      item_problemMatcher = Some [''$rustc''], item_group = Some Build,
      item_presentationOptions = Some \<lparr>reveal = Always, panel = New\<rparr>\<rparr>,
     \<lparr>item_definition =
        \<lparr>taskName = ''cargo test'', type' = ''shell'', command = ''cargo'', args = [''test'']\<rparr>,
      item_problemMatcher = Some [''$rustc''], item_group = Some Test,
      item_presentationOptions = Some \<lparr>reveal = Always, panel = New\<rparr>\<rparr>,
     \<lparr>item_definition =
        \<lparr>taskName = ''cargo clean'', type' = ''shell'', command = ''cargo'', args = [''clean'']\<rparr>,
      item_problemMatcher = None, item_group = Some Clean,
      item_presentationOptions = Some \<lparr>reveal = Always, panel = New\<rparr>\<rparr>]"
  by (simp add: taskList_def Let_def)

section \<open>The configuration writer: claims\<close>

text \<open>
  C1, as amended. When the configuration has no \<^verbatim>\<open>tasks\<close> key and the editor accepts the
  write, each of the two entry points of the writer stores exactly the four-task block under
  \<^verbatim>\<open>tasks\<close>, changes no other key, and displays the notification of success; its promise
  resolves to \<^verbatim>\<open>undefined\<close>, the notification having no items to select. Nothing else of
  the world changes. The block is the one written out in the last conjunct: version 2.0.0,
  presentation reveal always and panel new, and the cargo build, run, test and clean
  entries.
\<close>

theorem writer_stores_default_block_when_tasks_absent:
  assumes "settings w ''tasks'' = None" and "updateError w = None"
  shows
    "addBuildCommandsOnOpeningProject w =
       (Inr None,
        w\<lparr>settings := (settings w)(''tasks'' \<mapsto> createDefaultTaskConfig),
          shown := shown w @ [''Added default build tasks for Rust'']\<rparr>) \<and>
     addBuildCommandsByUser w =
       (Inr None,
        w\<lparr>settings := (settings w)(''tasks'' \<mapsto> createDefaultTaskConfig),
          shown := shown w @ [''Added default build tasks for Rust'']\<rparr>) \<and>
     createDefaultTaskConfig =
       JObj [
         (''version'', JStr ''2.0.0''),
         (''presentation'', JObj [(''reveal'', JStr ''always''), (''panel'', JStr ''new'')]),
         (''tasks'', JArr [
            JObj [(''taskName'', JStr ''cargo build''), (''type'', JStr ''shell''),
                  (''command'', JStr ''cargo''), (''args'', JArr [JStr ''build'']),
                  (''group'', JStr ''build''), (''problemMatcher'', JStr ''$rustc'')],
            JObj [(''taskName'', JStr ''cargo run''), (''type'', JStr ''shell''),
                  (''command'', JStr ''cargo''), (''args'', JArr [JStr ''run'']),
                  (''problemMatcher'', JStr ''$rustc'')],
            JObj [(''taskName'', JStr ''cargo test''), (''type'', JStr ''shell''),
                  (''command'', JStr ''cargo''), (''args'', JArr [JStr ''test'']),
                  (''group'', JStr ''test''), (''problemMatcher'', JStr ''$rustc'')],
            JObj [(''taskName'', JStr ''cargo clean''), (''type'', JStr ''shell''),
                  (''command'', JStr ''cargo''), (''args'', JArr [JStr ''clean''])]])]"
proof -
  from assms(1) have absent: "\<not> truthy (settings w ''tasks'')"
    by simp
  have on_open: "addBuildCommandsOnOpeningProject w = addBuildCommands (settings w) w"
    and by_user: "addBuildCommandsByUser w = addBuildCommands (settings w) w"
    using not_truthy_goes_on [OF absent] by simp_all
  have stored: "addBuildCommands (settings w) w =
     (Inr None,
      w\<lparr>settings := (settings w)(''tasks'' \<mapsto> createDefaultTaskConfig),
        shown := shown w @ [''Added default build tasks for Rust'']\<rparr>)"
    by (rule addBuildCommands_accepted [OF assms(2)])
  show ?thesis
    unfolding on_open by_user stored by (simp add: createDefaultTaskConfig_def)
qed

theorem writer_stores_default_block_when_tasks_absent_witness:
  "settings fresh_world ''tasks'' = None \<and> updateError fresh_world = None \<and>
   fst (addBuildCommandsOnOpeningProject fresh_world) = Inr None \<and>
   settings (snd (addBuildCommandsOnOpeningProject fresh_world)) =
     [''tasks'' \<mapsto> createDefaultTaskConfig] \<and>
   shown (snd (addBuildCommandsOnOpeningProject fresh_world)) =
     [''Added default build tasks for Rust''] \<and>
   fst (addBuildCommandsByUser fresh_world) = Inr None \<and>
   settings (snd (addBuildCommandsByUser fresh_world)) =
     [''tasks'' \<mapsto> createDefaultTaskConfig] \<and>
   shown (snd (addBuildCommandsByUser fresh_world)) =
     [''Added default build tasks for Rust'']"
proof -
  have absent: "settings fresh_world ''tasks'' = None" and accepts: "updateError fresh_world = None"
    by (simp_all add: fresh_world_def)
  have before: "settings fresh_world = Map.empty" "shown fresh_world = []"
    by (simp_all add: fresh_world_def)
  note stored = writer_stores_default_block_when_tasks_absent [OF absent accepts]
  from stored have on_open: "addBuildCommandsOnOpeningProject fresh_world =
      (Inr None,
       fresh_world\<lparr>settings := (settings fresh_world)(''tasks'' \<mapsto> createDefaultTaskConfig),
         shown := shown fresh_world @ [''Added default build tasks for Rust'']\<rparr>)"
    by (rule conjunct1)
  from stored have by_user: "addBuildCommandsByUser fresh_world =
      (Inr None,
       fresh_world\<lparr>settings := (settings fresh_world)(''tasks'' \<mapsto> createDefaultTaskConfig),
         shown := shown fresh_world @ [''Added default build tasks for Rust'']\<rparr>)"
    by (rule conjunct1 [OF conjunct2])
  show ?thesis
    unfolding on_open by_user using absent accepts by (simp add: before)
qed

text \<open>
  C1, as stated, is false in two ways. The writer returns no string: in a world with no
  \<^verbatim>\<open>tasks\<close> key and an editor that accepts the write, the promise of either entry point
  resolves to \<^verbatim>\<open>undefined\<close>. And the block is not written for every such store: when the
  editor rejects the write, the \<^verbatim>\<open>tasks\<close> key is still absent afterwards.
\<close>

theorem writer_returns_no_string_counterexample:
  "settings fresh_world ''tasks'' = None \<and>
   fst (addBuildCommandsOnOpeningProject fresh_world) = Inr None \<and>
   fst (addBuildCommandsByUser fresh_world) = Inr None \<and>
   settings readonly_world ''tasks'' = None \<and>
   settings (snd (addBuildCommandsOnOpeningProject readonly_world)) ''tasks'' = None \<and>
   settings (snd (addBuildCommandsByUser readonly_world)) ''tasks'' = None"
proof -
  have absent: "settings fresh_world ''tasks'' = None"
    and accepts: "updateError fresh_world = None"
    by (simp_all add: fresh_world_def)
  have absent': "settings readonly_world ''tasks'' = None"
    and rejects: "updateError readonly_world = Some (HostError ''EACCES'')"
    by (simp_all add: readonly_world_def fresh_world_def)
  from absent have falsy: "\<not> truthy (settings fresh_world ''tasks'')"
    by simp
  from absent' have falsy': "\<not> truthy (settings readonly_world ''tasks'')"
    by simp
  have "fst (addBuildCommandsOnOpeningProject fresh_world) = Inr None"
    and "fst (addBuildCommandsByUser fresh_world) = Inr None"
    using not_truthy_goes_on [OF falsy] addBuildCommands_accepted [OF accepts] by simp_all
  moreover
  have "settings (snd (addBuildCommandsOnOpeningProject readonly_world)) ''tasks'' = None"
    and "settings (snd (addBuildCommandsByUser readonly_world)) ''tasks'' = None"
    using not_truthy_goes_on [OF falsy'] addBuildCommands_rejected [OF rejects] absent'
    by simp_all
  ultimately show ?thesis
    using absent absent' by blast
qed

text \<open>
  C3, as amended. When the \<^verbatim>\<open>tasks\<close> key holds a truthy value (any value but \<^verbatim>\<open>null\<close>,
  \<^verbatim>\<open>false\<close>, \<^verbatim>\<open>0\<close> and the empty string), \<^verbatim>\<open>addBuildCommandsOnOpeningProject\<close> changes
  nothing, displays nothing and resolves to \<^verbatim>\<open>undefined\<close>, and \<^verbatim>\<open>addBuildCommandsByUser\<close>
  leaves the configuration as it is and displays the "has other tasks" notification, its
  promise resolving to \<^verbatim>\<open>undefined\<close> as well.
\<close>

theorem writer_keeps_truthy_tasks:
  assumes "truthy (settings w ''tasks'')"
  shows
    "addBuildCommandsOnOpeningProject w = (Inr None, w) \<and>
     addBuildCommandsByUser w =
       (Inr None,
        w\<lparr>shown := shown w @ [''tasks.json has other tasks. Any tasks are not added.'']\<rparr>) \<and>
     settings (snd (addBuildCommandsByUser w)) = settings w"
  using assms
  by (simp add: addBuildCommandsOnOpeningProject_def addBuildCommandsByUser_def
      getConfiguration_def showInformationMessage_def)

theorem writer_keeps_truthy_tasks_witness:
  "truthy (settings own_tasks_world ''tasks'') \<and>
   addBuildCommandsOnOpeningProject own_tasks_world = (Inr None, own_tasks_world) \<and>
   fst (addBuildCommandsByUser own_tasks_world) = Inr None \<and>
   shown (snd (addBuildCommandsByUser own_tasks_world)) =
     [''tasks.json has other tasks. Any tasks are not added.''] \<and>
   settings (snd (addBuildCommandsByUser own_tasks_world)) ''tasks'' =
     Some (JObj [(''version'', JStr ''0.1.0''), (''command'', JStr ''make'')])"
proof -
  have own: "truthy (settings own_tasks_world ''tasks'')"
    by (simp add: own_tasks_world_def fresh_world_def)
  have stored: "settings own_tasks_world ''tasks'' =
      Some (JObj [(''version'', JStr ''0.1.0''), (''command'', JStr ''make'')])"
    and silent: "shown own_tasks_world = []"
    by (simp_all add: own_tasks_world_def fresh_world_def)
  show ?thesis
    using writer_keeps_truthy_tasks [OF own] own stored silent by simp
qed

text \<open>
  C3, as stated, is false in two ways. Where the value under \<^verbatim>\<open>tasks\<close> is falsy the store
  does not stay as it is: with \<^verbatim>\<open>"tasks": null\<close> both entry points replace the value by the
  default block, and \<^verbatim>\<open>addBuildCommandsByUser\<close> displays the notification of success, not
  the "has other tasks" one. And where the user has tasks of their own,
  \<^verbatim>\<open>addBuildCommandsByUser\<close> displays the "has other tasks" notification but returns no
  message: its promise resolves to \<^verbatim>\<open>undefined\<close>.
\<close>

theorem writer_overwrites_null_tasks_counterexample:
  "settings null_tasks_world ''tasks'' = Some JNull \<and>
   settings (snd (addBuildCommandsOnOpeningProject null_tasks_world)) ''tasks'' =
     Some createDefaultTaskConfig \<and>
   settings (snd (addBuildCommandsOnOpeningProject null_tasks_world)) \<noteq>
     settings null_tasks_world \<and>
   settings (snd (addBuildCommandsByUser null_tasks_world)) ''tasks'' =
     Some createDefaultTaskConfig \<and>
   settings (snd (addBuildCommandsByUser null_tasks_world)) \<noteq> settings null_tasks_world \<and>
   shown (snd (addBuildCommandsByUser null_tasks_world)) =
     [''Added default build tasks for Rust''] \<and>
   truthy (settings own_tasks_world ''tasks'') \<and>
   fst (addBuildCommandsByUser own_tasks_world) = Inr None"
proof -
  have null: "settings null_tasks_world ''tasks'' = Some JNull"
    and accepts: "updateError null_tasks_world = None"
    and silent: "shown null_tasks_world = []"
    by (simp_all add: null_tasks_world_def fresh_world_def)
  from null have falsy: "\<not> truthy (settings null_tasks_world ''tasks'')"
    by simp
  have block: "createDefaultTaskConfig \<noteq> JNull"
    by (simp add: createDefaultTaskConfig_def)
  have changed: "(settings null_tasks_world)(''tasks'' \<mapsto> createDefaultTaskConfig) \<noteq>
      settings null_tasks_world"
  proof
    assume "(settings null_tasks_world)(''tasks'' \<mapsto> createDefaultTaskConfig) =
      settings null_tasks_world"
    then have "((settings null_tasks_world)(''tasks'' \<mapsto> createDefaultTaskConfig)) ''tasks'' =
      settings null_tasks_world ''tasks''"
      by simp
    with null block show False by simp
  qed
  have own: "truthy (settings own_tasks_world ''tasks'')"
    by (simp add: own_tasks_world_def fresh_world_def)
  then have undefined: "fst (addBuildCommandsByUser own_tasks_world) = Inr None"
    by (simp add: addBuildCommandsByUser_def getConfiguration_def showInformationMessage_def)
  have "settings (snd (addBuildCommandsOnOpeningProject null_tasks_world)) ''tasks'' =
      Some createDefaultTaskConfig"
    and "settings (snd (addBuildCommandsOnOpeningProject null_tasks_world)) \<noteq>
      settings null_tasks_world"
    and "settings (snd (addBuildCommandsByUser null_tasks_world)) ''tasks'' =
      Some createDefaultTaskConfig"
    and "settings (snd (addBuildCommandsByUser null_tasks_world)) \<noteq> settings null_tasks_world"
    and "shown (snd (addBuildCommandsByUser null_tasks_world)) =
      [''Added default build tasks for Rust'']"
    using not_truthy_goes_on [OF falsy] addBuildCommands_accepted [OF accepts] changed silent
    by simp_all
  with null own undefined show ?thesis
    by blast
qed

text \<open>
  C7, as amended. When the editor rejects the configuration write with an error \<open>e\<close>, the
  writer puts \<open>e\<close> on the console as an error and displays the notification of failure; its
  promise is resolved (\<open>Inr\<close>), not rejected, and resolves to \<^verbatim>\<open>undefined\<close>, the
  notification having no items to select; the configuration is left as it was. This holds
  for \<^verbatim>\<open>addBuildCommands\<close> itself, and so for both entry points whenever they reach the
  write.
\<close>

theorem writer_reports_rejected_write:
  assumes "updateError w = Some e"
  shows
    "addBuildCommands config w =
       (Inr None,
        w\<lparr>console := console w @ [ErrorValue e],
          shown := shown w @ [''Could not update tasks.json. Any tasks are not added.'']\<rparr>) \<and>
     (\<not> truthy (settings w ''tasks'') \<longrightarrow>
        addBuildCommandsOnOpeningProject w = addBuildCommands (settings w) w \<and>
        addBuildCommandsByUser w = addBuildCommands (settings w) w)"
  using addBuildCommands_rejected [OF assms] not_truthy_goes_on by simp

theorem writer_reports_rejected_write_witness:
  "updateError readonly_world = Some (HostError ''EACCES'') \<and>
   \<not> truthy (settings readonly_world ''tasks'') \<and>
   fst (addBuildCommandsOnOpeningProject readonly_world) = Inr None \<and>
   console (snd (addBuildCommandsOnOpeningProject readonly_world)) =
     [ErrorValue (HostError ''EACCES'')] \<and>
   shown (snd (addBuildCommandsOnOpeningProject readonly_world)) =
     [''Could not update tasks.json. Any tasks are not added.''] \<and>
   fst (addBuildCommandsByUser readonly_world) = Inr None \<and>
   console (snd (addBuildCommandsByUser readonly_world)) = [ErrorValue (HostError ''EACCES'')] \<and>
   shown (snd (addBuildCommandsByUser readonly_world)) =
     [''Could not update tasks.json. Any tasks are not added.''] \<and>
   settings (snd (addBuildCommandsByUser readonly_world)) ''tasks'' = None"
proof -
  have rejects: "updateError readonly_world = Some (HostError ''EACCES'')"
    and absent: "\<not> truthy (settings readonly_world ''tasks'')"
    and before: "console readonly_world = []" "shown readonly_world = []"
      "settings readonly_world ''tasks'' = None"
    by (simp_all add: readonly_world_def fresh_world_def)
  show ?thesis
    using writer_reports_rejected_write [OF rejects, of "settings readonly_world"]
      rejects absent before
    by simp
qed

text \<open>
  C7, as stated, is false in what it says is returned: with an editor that rejects the
  write, the failure text is displayed, but the promise of either entry point resolves to
  \<^verbatim>\<open>undefined\<close>, not to that text.
\<close>

theorem rejected_write_returns_no_string_counterexample:
  "updateError readonly_world = Some (HostError ''EACCES'') \<and>
   fst (addBuildCommands (settings readonly_world) readonly_world) = Inr None \<and>
   fst (addBuildCommandsOnOpeningProject readonly_world) = Inr None \<and>
   fst (addBuildCommandsByUser readonly_world) = Inr None"
proof -
  have rejects: "updateError readonly_world = Some (HostError ''EACCES'')"
    and absent: "\<not> truthy (settings readonly_world ''tasks'')"
    by (simp_all add: readonly_world_def fresh_world_def)
  have "fst (addBuildCommands (settings readonly_world) readonly_world) = Inr None"
    by (simp add: addBuildCommands_rejected [OF rejects])
  with not_truthy_goes_on [OF absent] rejects show ?thesis
    by simp
qed



section \<open>The task provider: claims\<close>

text \<open>
  C2. With a project root, \<^verbatim>\<open>provideTasks\<close> returns exactly four tasks, in the order
  build, run, test, clean, each with the command \<^verbatim>\<open>cargo\<close> and the arguments of the table,
  and logs nothing. With no project root it returns the empty list and puts one error line
  on the console.
\<close>

theorem provideTasks_four_cargo_tasks_or_none:
  "(rootPath w = Some root \<longrightarrow>
      length (fst (provideTasks w)) = 4 \<and>
      map task_name (fst (provideTasks w)) =
        [''cargo build'', ''cargo run'', ''cargo test'', ''cargo clean''] \<and>
      map (\<lambda>t. command (task_definition t)) (fst (provideTasks w)) =
        [''cargo'', ''cargo'', ''cargo'', ''cargo''] \<and>
      map (\<lambda>t. args (task_definition t)) (fst (provideTasks w)) =
        [[''build''], [''run''], [''test''], [''clean'']] \<and>
      snd (provideTasks w) = w) \<and>
   (rootPath w = None \<longrightarrow>
      provideTasks w =
        ([], w\<lparr>console := console w @ [Error ''`workspace.rootPath` is `undefined`'']\<rparr>))"
proof (intro conjI impI)
  assume "rootPath w = None"
  then show "provideTasks w =
      ([], w\<lparr>console := console w @ [Error ''`workspace.rootPath` is `undefined`'']\<rparr>)"
    by (simp add: provideTasks_def getCargoTasks_def console_error_def)
next
  assume rooted: "rootPath w = Some root"
  note tasks = provideTasks_rooted [OF rooted]
  show "length (fst (provideTasks w)) = 4"
    by (simp add: tasks taskList_value)
  show "map task_name (fst (provideTasks w)) =
      [''cargo build'', ''cargo run'', ''cargo test'', ''cargo clean'']"
    by (simp add: tasks createTask_fields taskList_value)
  show "map (\<lambda>t. command (task_definition t)) (fst (provideTasks w)) =
      [''cargo'', ''cargo'', ''cargo'', ''cargo'']"
    by (simp add: tasks createTask_fields taskList_value)
  show "map (\<lambda>t. args (task_definition t)) (fst (provideTasks w)) =
      [[''build''], [''run''], [''test''], [''clean'']]"
    by (simp add: tasks createTask_fields taskList_value)
  show "snd (provideTasks w) = w"
    by (simp add: tasks)
qed

theorem provideTasks_four_cargo_tasks_or_none_witness:
  "rootPath fresh_world = Some ''/proj'' \<and>
   map task_name (fst (provideTasks fresh_world)) =
     [''cargo build'', ''cargo run'', ''cargo test'', ''cargo clean''] \<and>
   map (\<lambda>t. args (task_definition t)) (fst (provideTasks fresh_world)) =
     [[''build''], [''run''], [''test''], [''clean'']] \<and>
   rootPath rootless_world = None \<and>
   fst (provideTasks rootless_world) = [] \<and>
   console (snd (provideTasks rootless_world)) = [Error ''`workspace.rootPath` is `undefined`'']"
proof -
  have rooted: "rootPath fresh_world = Some ''/proj''"
    by (simp add: fresh_world_def)
  have rootless: "rootPath rootless_world = None" and quiet: "console rootless_world = []"
    by (simp_all add: rootless_world_def fresh_world_def)
  from provideTasks_four_cargo_tasks_or_none [of fresh_world "''/proj''"] rooted
  have "map task_name (fst (provideTasks fresh_world)) =
      [''cargo build'', ''cargo run'', ''cargo test'', ''cargo clean'']"
    and "map (\<lambda>t. args (task_definition t)) (fst (provideTasks fresh_world)) =
      [[''build''], [''run''], [''test''], [''clean'']]"
    by blast+
  moreover from provideTasks_four_cargo_tasks_or_none [of rootless_world] rootless
  have "provideTasks rootless_world =
      ([], rootless_world\<lparr>console := console rootless_world @
         [Error ''`workspace.rootPath` is `undefined`'']\<rparr>)"
    by blast
  then have "fst (provideTasks rootless_world) = []"
    and "console (snd (provideTasks rootless_world)) =
      [Error ''`workspace.rootPath` is `undefined`'']"
    by (simp_all add: quiet)
  ultimately show ?thesis
    using rooted rootless by blast
qed

text \<open>
  C8. With a project root, the command line of every task that \<^verbatim>\<open>provideTasks\<close> returns is
  its command, one space, and its arguments joined by single spaces, with nothing added;
  the four command lines are \<^verbatim>\<open>cargo build\<close>, \<^verbatim>\<open>cargo run\<close>, \<^verbatim>\<open>cargo test\<close> and
  \<^verbatim>\<open>cargo clean\<close>, in that order; and every task's working directory is the project root.
\<close>

theorem provided_command_lines:
  assumes "rootPath w = Some root"
  shows
    "(\<forall>t \<in> set (fst (provideTasks w)).
        commandLine (task_execution t) =
          command (task_definition t) @ '' '' @ join (args (task_definition t)) '' '' \<and>
        cwd (options (task_execution t)) = Some root) \<and>
     map (\<lambda>t. commandLine (task_execution t)) (fst (provideTasks w)) =
       [''cargo build'', ''cargo run'', ''cargo test'', ''cargo clean'']"
proof
  show "\<forall>t \<in> set (fst (provideTasks w)).
        commandLine (task_execution t) =
          command (task_definition t) @ '' '' @ join (args (task_definition t)) '' '' \<and>
        cwd (options (task_execution t)) = Some root"
    by (auto simp add: provideTasks_rooted [OF assms] createTask_fields)
  show "map (\<lambda>t. commandLine (task_execution t)) (fst (provideTasks w)) =
       [''cargo build'', ''cargo run'', ''cargo test'', ''cargo clean'']"
    by (simp add: provideTasks_rooted [OF assms] createTask_fields taskList_value)
qed

text \<open>The scenario of the specification: root \<^verbatim>\<open>/proj\<close>, no existing tasks.\<close>

theorem provided_command_lines_witness:
  "rootPath fresh_world = Some ''/proj'' \<and>
   task_name (hd (fst (provideTasks fresh_world))) = ''cargo build'' \<and>
   commandLine (task_execution (hd (fst (provideTasks fresh_world)))) = ''cargo build'' \<and>
   cwd (options (task_execution (hd (fst (provideTasks fresh_world))))) = Some ''/proj'' \<and>
   map (\<lambda>t. commandLine (task_execution t)) (fst (provideTasks fresh_world)) =
     [''cargo build'', ''cargo run'', ''cargo test'', ''cargo clean'']"
proof -
  have rooted: "rootPath fresh_world = Some ''/proj''"
    by (simp add: fresh_world_def)
  note lines = provided_command_lines [OF rooted]
  have first: "hd (fst (provideTasks fresh_world)) = createTask ''/proj'' (hd taskList)"
    and member: "hd (fst (provideTasks fresh_world)) \<in> set (fst (provideTasks fresh_world))"
    by (simp_all add: provideTasks_rooted [OF rooted] taskList_value)
  have name: "task_name (hd (fst (provideTasks fresh_world))) = ''cargo build''"
    by (simp add: first createTask_fields taskList_value)
  from lines member
  have dir: "cwd (options (task_execution (hd (fst (provideTasks fresh_world))))) = Some ''/proj''"
    by blast
  from lines
  have all_lines: "map (\<lambda>t. commandLine (task_execution t)) (fst (provideTasks fresh_world)) =
     [''cargo build'', ''cargo run'', ''cargo test'', ''cargo clean'']"
    by blast
  have nonempty: "fst (provideTasks fresh_world) \<noteq> []"
    by (simp add: provideTasks_rooted [OF rooted] taskList_value)
  from all_lines nonempty
  have line: "commandLine (task_execution (hd (fst (provideTasks fresh_world)))) = ''cargo build''"
    by (cases "fst (provideTasks fresh_world)") simp_all
  from rooted name line dir all_lines show ?thesis
    by blast
qed

text \<open>
  C9. \<^verbatim>\<open>resolveTask\<close> of the registered provider declines every task: it returns
  \<^verbatim>\<open>undefined\<close>.
\<close>

theorem resolveTask_declines:
  "resolveTask t = None"
  by (simp add: resolveTask_def)

section \<open>The two tables\<close>

text \<open>
  C5, as amended. With a project root, the descriptors that \<^verbatim>\<open>provideTasks\<close> returns
  mirror the persisted table: the same four definitions (task name, type, command,
  arguments) in the same order, each descriptor named by its task name, and the same problem
  matchers, the matcher the persisted entry names being the one-element list of that name.
  They differ in three places: every descriptor has the presentation options reveal
  \<open>Always\<close>, panel \<open>New\<close>, where the persisted entries have none of their own; the clean
  task has the group \<open>Clean\<close> at runtime and no group in the persisted table; and the run
  task has the group \<open>Build\<close> at runtime and no group in the persisted table. The groups of
  the build and test tasks are the same in both. The descriptors take all of this from the
  table \<^verbatim>\<open>taskList\<close>, of which the last four conjuncts say the same.
\<close>

theorem runtime_descriptors_mirror_persisted_table:
  assumes "rootPath w = Some root"
  shows
    "map_option (map item_definition) persisted_items =
       Some (map task_definition (fst (provideTasks w))) \<and>
     map task_name (fst (provideTasks w)) =
       [''cargo build'', ''cargo run'', ''cargo test'', ''cargo clean''] \<and>
     map_option (map item_problemMatcher) persisted_items =
       Some (map task_problemMatchers (fst (provideTasks w))) \<and>
     map task_presentationOptions (fst (provideTasks w)) =
       replicate 4 (Some \<lparr>reveal = Always, panel = New\<rparr>) \<and>
     map_option (map item_presentationOptions) persisted_items = Some (replicate 4 None) \<and>
     map task_group (fst (provideTasks w)) = [Some Build, Some Build, Some Test, Some Clean] \<and>
     map_option (map item_group) persisted_items = Some [Some Build, None, Some Test, None] \<and>
     map task_definition (fst (provideTasks w)) = map item_definition taskList \<and>
     map task_problemMatchers (fst (provideTasks w)) = map item_problemMatcher taskList \<and>
     map task_presentationOptions (fst (provideTasks w)) = map item_presentationOptions taskList \<and>
     map task_group (fst (provideTasks w)) = map item_group taskList"
proof -
  note tasks = provideTasks_rooted [OF assms]
  have from_table:
    "map task_definition (fst (provideTasks w)) = map item_definition taskList"
    "map task_problemMatchers (fst (provideTasks w)) = map item_problemMatcher taskList"
    "map task_presentationOptions (fst (provideTasks w)) = map item_presentationOptions taskList"
    "map task_group (fst (provideTasks w)) = map item_group taskList"
    "map task_name (fst (provideTasks w)) = map (\<lambda>i. taskName (item_definition i)) taskList"
    by (simp_all add: tasks createTask_fields)
  have persisted:
    "map_option (map item_definition) persisted_items = Some (map item_definition taskList)"
    "map_option (map item_problemMatcher) persisted_items = Some (map item_problemMatcher taskList)"
    "map_option (map item_presentationOptions) persisted_items = Some (replicate 4 None)"
    "map_option (map item_group) persisted_items = Some [Some Build, None, Some Test, None]"
    by (simp_all add: persisted_items_value taskList_value numeral_eq_Suc)
  have table:
    "map (\<lambda>i. taskName (item_definition i)) taskList =
       [''cargo build'', ''cargo run'', ''cargo test'', ''cargo clean'']"
    "map item_presentationOptions taskList =
       replicate 4 (Some \<lparr>reveal = Always, panel = New\<rparr>)"
    "map item_group taskList = [Some Build, Some Build, Some Test, Some Clean]"
    by (simp_all add: taskList_value numeral_eq_Suc)
  show ?thesis
    unfolding from_table persisted table by simp
qed

text \<open>The same for the project at \<^verbatim>\<open>/proj\<close>.\<close>

theorem runtime_descriptors_mirror_persisted_table_witness:
  "rootPath fresh_world = Some ''/proj'' \<and>
   map_option (map item_definition) persisted_items =
     Some (map task_definition (fst (provideTasks fresh_world))) \<and>
   map task_presentationOptions (fst (provideTasks fresh_world)) =
     replicate 4 (Some \<lparr>reveal = Always, panel = New\<rparr>) \<and>
   map task_group (fst (provideTasks fresh_world)) =
     [Some Build, Some Build, Some Test, Some Clean] \<and>
   map_option (map item_group) persisted_items = Some [Some Build, None, Some Test, None]"
proof -
  have rooted: "rootPath fresh_world = Some ''/proj''"
    by (simp add: fresh_world_def)
  from runtime_descriptors_mirror_persisted_table [OF rooted] rooted show ?thesis
    by blast
qed

text \<open>
  C5, as stated, is false: the persisted table changed as the claim says (presentation
  options added, group \<open>Clean\<close> for the clean task, nothing else) is not the runtime table,
  because the run task, groupless in the persisted table, has the group \<open>Build\<close> at
  runtime, also in the task that \<^verbatim>\<open>provideTasks\<close> returns for it.
\<close>

theorem run_task_group_counterexample:
  "map_option (map spec_runtime_item) persisted_items \<noteq> Some taskList \<and>
   map_option (map item_group) (map_option (map spec_runtime_item) persisted_items) =
     Some [Some Build, None, Some Test, Some Clean] \<and>
   map item_group taskList = [Some Build, Some Build, Some Test, Some Clean] \<and>
   task_name (fst (provideTasks fresh_world) ! 1) = ''cargo run'' \<and>
   task_group (fst (provideTasks fresh_world) ! 1) = Some Build"
proof -
  have rooted: "rootPath fresh_world = Some ''/proj''"
    by (simp add: fresh_world_def)
  have spec_groups:
    "map_option (map item_group) (map_option (map spec_runtime_item) persisted_items) =
       Some [Some Build, None, Some Test, Some Clean]"
    by (simp add: persisted_items_value spec_runtime_item_def)
  have code_groups: "map item_group taskList = [Some Build, Some Build, Some Test, Some Clean]"
    by (simp add: taskList_value)
  have differ: "map_option (map spec_runtime_item) persisted_items \<noteq> Some taskList"
  proof
    assume "map_option (map spec_runtime_item) persisted_items = Some taskList"
    with spec_groups have "Some (map item_group taskList) =
        Some [Some Build, None, Some Test, Some Clean]"
      by simp
    with code_groups show False
      by simp
  qed
  have "task_name (fst (provideTasks fresh_world) ! 1) = ''cargo run''"
    and "task_group (fst (provideTasks fresh_world) ! 1) = Some Build"
    by (simp_all add: provideTasks_rooted [OF rooted] createTask_fields taskList_value)
  with differ spec_groups code_groups show ?thesis
    by blast
qed

section \<open>Registration of the provider\<close>

text \<open>
  C6. Starting with \<^verbatim>\<open>taskProvider\<close> null, two calls of \<^verbatim>\<open>activateTaskProvider\<close> in a row
  make one registration: the first call registers the provider for the type \<^verbatim>\<open>rust\<close> and
  keeps the handle; the second call changes nothing but the console, where it logs that the
  provider has been activated. The editor holds exactly one registration more than before,
  so exactly one when it held none.
\<close>

theorem activateTaskProvider_twice_registers_once:
  assumes "taskProvider w = None"
  shows
    "providers (activateTaskProvider w) = providers w @ [(nextHandle w, ''rust'')] \<and>
     taskProvider (activateTaskProvider w) = Some (nextHandle w) \<and>
     activateTaskProvider (activateTaskProvider w) =
       (activateTaskProvider w)\<lparr>console := console (activateTaskProvider w) @
          [Log ''the task provider has been activated'']\<rparr> \<and>
     providers (activateTaskProvider (activateTaskProvider w)) =
       providers w @ [(nextHandle w, ''rust'')] \<and>
     length (providers (activateTaskProvider (activateTaskProvider w))) =
       Suc (length (providers w)) \<and>
     taskProvider (activateTaskProvider (activateTaskProvider w)) = Some (nextHandle w)"
proof -
  have once: "activateTaskProvider w =
      w\<lparr>providers := providers w @ [(nextHandle w, ''rust'')],
        nextHandle := Suc (nextHandle w), taskProvider := Some (nextHandle w)\<rparr>"
    using assms by (simp add: activateTaskProvider_def registerTaskProvider_def)
  have held: "taskProvider (activateTaskProvider w) \<noteq> None"
    by (simp add: once)
  have twice: "activateTaskProvider (activateTaskProvider w) =
      (activateTaskProvider w)\<lparr>console := console (activateTaskProvider w) @
         [Log ''the task provider has been activated'']\<rparr>"
    using held by (simp add: activateTaskProvider_def [of "activateTaskProvider w"] console_log_def)
  show ?thesis
    unfolding twice by (simp add: once)
qed

theorem activateTaskProvider_twice_registers_once_witness:
  "taskProvider fresh_world = None \<and> providers fresh_world = [] \<and>
   providers (activateTaskProvider (activateTaskProvider fresh_world)) = [(0, ''rust'')] \<and>
   taskProvider (activateTaskProvider (activateTaskProvider fresh_world)) = Some 0 \<and>
   console (activateTaskProvider (activateTaskProvider fresh_world)) =
     [Log ''the task provider has been activated'']"
proof -
  have unregistered: "taskProvider fresh_world = None"
    and before: "providers fresh_world = []" "nextHandle fresh_world = 0" "console fresh_world = []"
    by (simp_all add: fresh_world_def)
  note twice = activateTaskProvider_twice_registers_once [OF unregistered]
  have quiet: "console (activateTaskProvider fresh_world) = []"
    by (simp add: activateTaskProvider_def registerTaskProvider_def fresh_world_def)
  from twice have "console (activateTaskProvider (activateTaskProvider fresh_world)) =
      console (activateTaskProvider fresh_world) @ [Log ''the task provider has been activated'']"
    by simp
  with quiet have logged: "console (activateTaskProvider (activateTaskProvider fresh_world)) =
      [Log ''the task provider has been activated'']"
    by simp
  from twice before
  have "providers (activateTaskProvider (activateTaskProvider fresh_world)) = [(0, ''rust'')]"
    and "taskProvider (activateTaskProvider (activateTaskProvider fresh_world)) = Some 0"
    by simp_all
  with unregistered before logged show ?thesis
    by blast
qed

text \<open>
  C4 describes a registration that can be taken up again after it was released. The code
  run on the sequence activate, deactivate, activate from a fresh world: the first call
  registers the provider under handle 0; \<^verbatim>\<open>deactivateTaskProvider\<close> disposes of the
  registration and leaves \<^verbatim>\<open>taskProvider\<close> holding the disposed handle; so the second
  \<^verbatim>\<open>activateTaskProvider\<close> takes the provider for activated, logs that, and registers
  nothing: the editor is left with no provider.
\<close>

theorem reactivation_registers_nothing:
  "providers (activateTaskProvider fresh_world) = [(0, ''rust'')] \<and>
   providers (deactivateTaskProvider (activateTaskProvider fresh_world)) = [] \<and>
   taskProvider (deactivateTaskProvider (activateTaskProvider fresh_world)) = Some 0 \<and>
   providers (activateTaskProvider (deactivateTaskProvider (activateTaskProvider fresh_world))) = [] \<and>
   console (activateTaskProvider (deactivateTaskProvider (activateTaskProvider fresh_world))) =
     [Log ''the task provider has been activated'']"
proof -
  have first: "activateTaskProvider fresh_world =
      fresh_world\<lparr>providers := [(0, ''rust'')], nextHandle := Suc 0, taskProvider := Some 0\<rparr>"
    by (simp add: activateTaskProvider_def registerTaskProvider_def fresh_world_def)
  have released: "deactivateTaskProvider (activateTaskProvider fresh_world) =
      fresh_world\<lparr>providers := [], nextHandle := Suc 0, taskProvider := Some 0\<rparr>"
    by (simp add: first deactivateTaskProvider_def dispose_def)
  have again: "activateTaskProvider (deactivateTaskProvider (activateTaskProvider fresh_world)) =
      fresh_world\<lparr>providers := [], nextHandle := Suc 0, taskProvider := Some 0,
        console := [Log ''the task provider has been activated'']\<rparr>"
    unfolding released by (simp add: activateTaskProvider_def console_log_def fresh_world_def)
  have "providers (activateTaskProvider fresh_world) = [(0, ''rust'')]"
    by (simp add: first)
  moreover have "providers (deactivateTaskProvider (activateTaskProvider fresh_world)) = []"
    and "taskProvider (deactivateTaskProvider (activateTaskProvider fresh_world)) = Some 0"
    by (simp_all add: released)
  moreover
  have "providers (activateTaskProvider (deactivateTaskProvider (activateTaskProvider fresh_world))) = []"
    and "console (activateTaskProvider (deactivateTaskProvider (activateTaskProvider fresh_world))) =
      [Log ''the task provider has been activated'']"
    by (simp_all add: again)
  ultimately show ?thesis
    by blast
qed


end
